theory Spec2Isabelle
  imports Main
begin

text \<open>
  A model of \<open>cfg_parse.c\<close>, the parser of configuration files made of statements
  \<open>key = value;\<close> and \<open>key = [value, ...];\<close>, and of what \<open>cfg_parse.h\<close> declares for
  it. Every function of the source is a function of the same name here; a loop is a
  recursive function named after the function it belongs to. The stream is passed in
  and returned, a status below zero is the \<open>Inl\<close> side of a sum, and a call that does
  not return has the value \<open>None\<close>. The platform is one with \<open>long\<close> of 64 bits and the
  "C" locale; \<open>malloc\<close> is taken to succeed, and counts of entries and elements to stay
  below \<open>2 ^ 31\<close>, where the \<open>int\<close> counters of the source do not overflow.
\<close>

section \<open>Characters and the C library\<close>

text \<open>
  A byte read by \<open>fgetc\<close> is an \<open>int\<close> that is either an \<open>unsigned char\<close> value or
  \<open>EOF\<close>; it is modelled as a \<open>char option\<close> with \<open>None\<close> for \<open>EOF\<close>. The
  \<open>ctype.h\<close> predicates are those of the "C" locale and are false at \<open>EOF\<close>.
\<close>

type_synonym cint = "char option"

abbreviation EOF :: cint where
  "EOF \<equiv> None"

definition code :: "char \<Rightarrow> nat" where
  "code c = of_char c"

definition isdigit :: "cint \<Rightarrow> bool" where
  "isdigit ch = (case ch of None \<Rightarrow> False | Some c \<Rightarrow> 48 \<le> code c \<and> code c \<le> 57)"

definition isalpha :: "cint \<Rightarrow> bool" where
  "isalpha ch = (case ch of None \<Rightarrow> False
     | Some c \<Rightarrow> (65 \<le> code c \<and> code c \<le> 90) \<or> (97 \<le> code c \<and> code c \<le> 122))"

definition isalnum :: "cint \<Rightarrow> bool" where
  "isalnum ch = (isalpha ch \<or> isdigit ch)"

definition isspace :: "cint \<Rightarrow> bool" where
  "isspace ch = (case ch of None \<Rightarrow> False
     | Some c \<Rightarrow> code c = 32 \<or> (9 \<le> code c \<and> code c \<le> 13))"

definition tolower :: "cint \<Rightarrow> cint" where
  "tolower ch = (case ch of None \<Rightarrow> None
     | Some c \<Rightarrow> if 65 \<le> code c \<and> code c \<le> 90 then Some (char_of (code c + 32)) else Some c)"

subsection \<open>The stream\<close>

text \<open>
  A \<open>FILE\<close> opened for reading is its content and the read position. \<open>fgetc\<close> at the end
  of the content returns \<open>EOF\<close> and leaves the position where it is. The macro
  \<open>pushback(file, n)\<close> is \<open>fseek(file, -(n), SEEK_CUR)\<close>: it moves the position back by
  \<open>n\<close> bytes, and fails, leaving the position unchanged, when that would be before the
  start of the file. \<open>fgets(buf, n, file)\<close> reads at most \<open>n - 1\<close> bytes and stops after
  a newline or at the end of the content.
\<close>

record FILE =
  content :: string
  pos :: nat

definition fgetc :: "FILE \<Rightarrow> cint \<times> FILE" where
  "fgetc f = (if pos f < length (content f)
              then (Some (content f ! pos f), f\<lparr>pos := pos f + 1\<rparr>)
              else (EOF, f))"

definition pushback :: "FILE \<Rightarrow> nat \<Rightarrow> FILE" where
  "pushback f n = (if n \<le> pos f then f\<lparr>pos := pos f - n\<rparr> else f)"

fun take_line :: "nat \<Rightarrow> string \<Rightarrow> string" where
  "take_line 0 cs = []"
| "take_line (Suc k) [] = []"
| "take_line (Suc k) (c # cs) = (if c = CHR 0x0A then [c] else c # take_line k cs)"

definition fgets :: "nat \<Rightarrow> FILE \<Rightarrow> string \<times> FILE" where
  "fgets n f = (let s = take_line (n - 1) (drop (pos f) (content f))
                in (s, f\<lparr>pos := pos f + length s\<rparr>))"

text \<open>The C string held by a buffer: the bytes before the first NUL.\<close>

definition c_str :: "string \<Rightarrow> string" where
  "c_str s = takeWhile (\<lambda>c. c \<noteq> CHR 0x00) s"


section \<open>Data model\<close>

text \<open>
  The failure codes of \<open>cfg_parse.h\<close> (negative integers in the source); the success
  status \<open>1\<close> is the \<open>Inr\<close> side of a sum.
\<close>

datatype error =
    FILE_NO_ACCESS
  | OUT_OF_MEMORY
  | UNEXPECTED_EOF
  | UNEXPECTED_TOKEN
  | INVALID_CONFIG_KEY
  | INVALID_ARRAY_ELEMENT
  | INVALID_INTEGER_LITERAL
  | INVALID_DECIMAL_LITERAL

text \<open>
  A \<open>double\<close> that the parser can produce is never negative and never a NaN: a finite
  one is \<open>mantissa * 2 ^ exponent\<close> in the canonical form of the binary64 encoding
  (\<open>2 ^ 52 \<le> mantissa < 2 ^ 53\<close> and \<open>- 1074 \<le> exponent \<le> 971\<close>, or
  \<open>mantissa < 2 ^ 52\<close> and \<open>exponent = - 1074\<close>), so that equal values are equal terms.
\<close>

datatype double = Finite int int | Infinity

text \<open>
  \<open>PrimitiveValue\<close> is a union with a type tag (\<open>NUMBER_TYPE\<close>, \<open>DECIMAL_TYPE\<close>,
  \<open>STRING_TYPE\<close>). \<open>Number\<close> is an \<open>int64_t\<close>: the values stored are results of
  \<open>strtol\<close>, which lie between \<open>LONG_MIN\<close> and \<open>LONG_MAX\<close>.
\<close>

datatype PrimitiveValue = Number int | Decimal double | String string

text \<open>
  Each \<open>Data[i]\<close> of a \<open>Vector\<close> points to a \<open>Value\<close> of which only the
  \<open>Primitive\<close> member is ever set and read, so an element is its \<open>PrimitiveValue\<close>.
\<close>

record Vector =
  Length :: nat
  Data :: "PrimitiveValue list"

datatype Value = Primitive PrimitiveValue | Array Vector

definition ARRAY_TYPE :: int where
  "ARRAY_TYPE = 4"

definition PRIMITIVE_TYPE :: int where
  "PRIMITIVE_TYPE = 5"

text \<open>
  The entries are a singly linked chain that ends in a sentinel node; the chain without
  the sentinel is the list \<open>List\<close> of a \<open>Config\<close>, and \<open>Next\<close> is the tail of the list.
\<close>

record ConfigEntry =
  Key :: string
  Value :: Value
  Type :: int

record Config =
  Entries :: nat
  List :: "ConfigEntry list"

section \<open>Lexical helpers\<close>

lemma fgetc_advances:
  "(Some c, f') = fgetc f \<Longrightarrow>
     length (content f') - pos f' < length (content f) - pos f"
  by (auto simp: fgetc_def split: if_splits)

text \<open>\<open>ParseComment\<close> is entered after the \<open>#\<close> has been consumed.\<close>

function ParseComment :: "FILE \<Rightarrow> FILE" where
  "ParseComment f =
     (case fgetc f of
        (None, f') \<Rightarrow> f'
      | (Some c, f') \<Rightarrow> if c = CHR 0x0A then f' else ParseComment f')"
  by pat_completeness auto
termination
  by (relation "measure (\<lambda>f. length (content f) - pos f)")
     (auto dest: fgetc_advances)

definition IsSpecialSymbol :: "cint \<Rightarrow> bool" where
  "IsSpecialSymbol c = (c = Some CHR ''$'' \<or> c = Some CHR ''.'' \<or> c = Some CHR ''_'')"

text \<open>\<open>expect\<close> and \<open>consumeLetter\<close> return \<open>1\<close> (here \<open>True\<close>) or \<open>-1\<close>.\<close>

definition expect :: "FILE \<Rightarrow> char \<Rightarrow> bool \<times> FILE" where
  "expect f c = (case fgetc f of (ch, f') \<Rightarrow> (Some c = ch, f'))"

definition consumeLetter :: "FILE \<Rightarrow> bool \<times> FILE" where
  "consumeLetter f = (case fgetc f of (c, f') \<Rightarrow> (isalpha c, f'))"

function consumeSpace :: "FILE \<Rightarrow> FILE" where
  "consumeSpace f =
     (case fgetc f of
        (c, f') \<Rightarrow> if \<not> isspace c then pushback f' 1 else consumeSpace f')"
  by pat_completeness auto
termination
  by (relation "measure (\<lambda>f. length (content f) - pos f)")
     (auto simp: isspace_def dest: fgetc_advances split: option.splits)

section \<open>Token parsers\<close>

subsection \<open>Configuration key\<close>

function ParseString_scan :: "FILE \<Rightarrow> nat \<Rightarrow> FILE \<times> nat" where
  "ParseString_scan f len =
     (case fgetc f of
        (c, f') \<Rightarrow> if \<not> isalnum c \<and> \<not> IsSpecialSymbol c then (pushback f' 1, len)
                   else ParseString_scan f' (len + 1))"
  by pat_completeness auto
termination
  by (relation "measure (\<lambda>(f, len). length (content f) - pos f)")
     (auto simp: isalnum_def isalpha_def isdigit_def IsSpecialSymbol_def
           dest: fgetc_advances split: option.splits)

text \<open>\<open>None\<close> is the \<open>NULL\<close> that \<open>ParseString\<close> returns when there is no letter.\<close>

definition ParseString :: "FILE \<Rightarrow> string option \<times> FILE" where
  "ParseString f =
     (case consumeLetter f of
        (False, f1) \<Rightarrow> (None, f1)
      | (True, f1) \<Rightarrow>
          (case ParseString_scan f1 1 of
             (f2, len) \<Rightarrow>
               (case fgets (len + 1) (pushback f2 len) of
                  (s, f3) \<Rightarrow> (Some (c_str s), f3))))"

subsection \<open>Quoted string\<close>

text \<open>
  The scan returns the length counted up to the closing quote, or \<open>None\<close> when the end
  of the input comes first. \<open>ParseQuotedString\<close> is entered after the opening quote has
  been consumed.
\<close>

function ParseQuotedString_scan :: "FILE \<Rightarrow> nat \<Rightarrow> nat option \<times> FILE" where
  "ParseQuotedString_scan f len =
     (case fgetc f of
        (None, f') \<Rightarrow> (None, f')
      | (Some ch, f') \<Rightarrow> if ch = CHR 0x27 then (Some len, f')
                        else ParseQuotedString_scan f' (len + 1))"
  by pat_completeness auto
termination
  by (relation "measure (\<lambda>(f, len). length (content f) - pos f)")
     (auto dest: fgetc_advances)

definition ParseQuotedString :: "FILE \<Rightarrow> (error + PrimitiveValue) \<times> FILE" where
  "ParseQuotedString f =
     (case ParseQuotedString_scan f 0 of
        (None, f1) \<Rightarrow> (Inl UNEXPECTED_EOF, f1)
      | (Some len, f1) \<Rightarrow>
          (case fgets (len + 1) (pushback f1 (len + 1)) of
             (s, f2) \<Rightarrow> (Inr (String (c_str s)), snd (fgetc f2))))"


subsection \<open>Numeric conversions of the C library\<close>

text \<open>
  \<open>strtol\<close>, \<open>strtod\<close> and \<open>printf\<close> belong to the C library, not to the repository;
  they are modelled after the C standard (7.22.1.3, 7.22.1.4, 7.21.6.1), with \<open>long\<close>
  of 64 bits and \<open>double\<close> the binary64 format rounded to nearest, ties to even.
\<close>

definition LONG_MAX :: int where
  "LONG_MAX = 9223372036854775807"

definition LONG_MIN :: int where
  "LONG_MIN = - 9223372036854775808"

definition digit_val :: "char \<Rightarrow> nat option" where
  "digit_val c =
     (if 48 \<le> code c \<and> code c \<le> 57 then Some (code c - 48)
      else if 97 \<le> code c \<and> code c \<le> 122 then Some (code c - 87)
      else if 65 \<le> code c \<and> code c \<le> 90 then Some (code c - 55)
      else None)"

text \<open>
  The longest run of digits of base \<open>b\<close> at the front of a string: the number it
  denotes (continuing from \<open>acc\<close>), how many digits it has, and what follows it.
\<close>

fun scan_digits :: "nat \<Rightarrow> int \<Rightarrow> nat \<Rightarrow> string \<Rightarrow> int \<times> nat \<times> string" where
  "scan_digits b acc k [] = (acc, k, [])"
| "scan_digits b acc k (c # cs) =
     (case digit_val c of
        None \<Rightarrow> (acc, k, c # cs)
      | Some d \<Rightarrow> if d < b then scan_digits b (acc * int b + int d) (k + 1) cs
                  else (acc, k, c # cs))"

text \<open>
  \<open>strtol(str, &endptr, 0)\<close>: the value and the string at \<open>endptr\<close>. White space and
  a sign may lead; \<open>0x\<close> or \<open>0X\<close> before a hexadecimal digit selects base 16, another
  leading \<open>0\<close> base 8, anything else base 10; a value out of range is replaced by
  \<open>LONG_MAX\<close> or \<open>LONG_MIN\<close>; without any digit nothing is converted.
\<close>

definition strtol_base :: "string \<Rightarrow> nat \<times> string" where
  "strtol_base s =
     (case s of
        c0 # c1 # c2 # cs \<Rightarrow>
          if c0 = CHR ''0'' \<and> (c1 = CHR ''x'' \<or> c1 = CHR ''X'')
               \<and> (case digit_val c2 of None \<Rightarrow> False | Some d \<Rightarrow> d < 16)
          then (16, c2 # cs)
          else if c0 = CHR ''0'' then (8, s) else (10, s)
      | _ \<Rightarrow> (case s of c0 # cs \<Rightarrow> if c0 = CHR ''0'' then (8, s) else (10, s)
                        | [] \<Rightarrow> (10, s)))"

definition strtol :: "string \<Rightarrow> int \<times> string" where
  "strtol s =
     (let s1 = dropWhile (\<lambda>c. isspace (Some c)) s;
          neg = (case s1 of [] \<Rightarrow> False | c # _ \<Rightarrow> c = CHR ''-'');
          s2 = (case s1 of [] \<Rightarrow> s1
                | c # cs \<Rightarrow> if c = CHR ''-'' \<or> c = CHR ''+'' then cs else s1)
      in case strtol_base s2 of
           (b, s3) \<Rightarrow>
             (case scan_digits b 0 0 s3 of
                (v, k, rest) \<Rightarrow>
                  if k = 0 then (0, s)
                  else if neg then (max (- v) LONG_MIN, rest)
                  else (min v LONG_MAX, rest)))"

text \<open>
  Rounding the rational \<open>num / den\<close> (\<open>num \<ge> 0\<close>, \<open>den > 0\<close>) to the nearest integer,
  ties to even, and to the nearest \<open>double\<close>.
\<close>

definition round_half_even :: "int \<Rightarrow> int \<Rightarrow> int" where
  "round_half_even num den =
     (let q = num div den; r = num mod den
      in if 2 * r < den then q
         else if den < 2 * r then q + 1
         else if even q then q else q + 1)"

function bitlen :: "int \<Rightarrow> nat" where
  "bitlen n = (if n \<le> 0 then 0 else Suc (bitlen (n div 2)))"
  by pat_completeness auto
termination
  by (relation "measure nat") auto

text \<open>The largest \<open>e\<close> with \<open>2 ^ e \<le> num / den\<close>, for \<open>num > 0\<close>.\<close>

definition floor_log2 :: "int \<Rightarrow> int \<Rightarrow> int" where
  "floor_log2 num den =
     (let d = int (bitlen num) - int (bitlen den)
      in if (if 0 \<le> d then den * 2 ^ nat d \<le> num else den \<le> num * 2 ^ nat (- d))
         then d else d - 1)"

definition round_double :: "int \<Rightarrow> int \<Rightarrow> double" where
  "round_double num den =
     (if num = 0 then Finite 0 (- 1074)
      else
        let e = max (floor_log2 num den) (- 1022) - 52;
            m = (if 0 \<le> e then round_half_even num (den * 2 ^ nat e)
                 else round_half_even (num * 2 ^ nat (- e)) den)
        in if m = 2 ^ 53 then (if e + 1 > 971 then Infinity else Finite (2 ^ 52) (e + 1))
           else if e > 971 then Infinity
           else Finite m e)"


text \<open>
  An exponent part at the front of a string: the marker (\<open>e\<close> or \<open>p\<close>, in either
  case), an optional sign and at least one decimal digit. The result is the sign, the
  exponent and what follows.
\<close>

definition exponent_part :: "char \<Rightarrow> char \<Rightarrow> string \<Rightarrow> (bool \<times> nat \<times> string) option" where
  "exponent_part lo up s =
     (case s of
        [] \<Rightarrow> None
      | c # cs \<Rightarrow>
          if c = lo \<or> c = up then
            (let neg = (case cs of [] \<Rightarrow> False | d # _ \<Rightarrow> d = CHR ''-'');
                 ds = (case cs of [] \<Rightarrow> cs
                       | d # ds \<Rightarrow> if d = CHR ''-'' \<or> d = CHR ''+'' then ds else cs)
             in case scan_digits 10 0 0 ds of
                  (x, k, rest) \<Rightarrow> if k = 0 then None else Some (neg, nat x, rest))
          else None)"

text \<open>
  The digits of a significand in base \<open>b\<close>, with an optional point: the digits read as
  one number, the count of digits after the point, the count of all digits, and what
  follows.
\<close>

definition significand :: "nat \<Rightarrow> string \<Rightarrow> int \<times> nat \<times> nat \<times> string" where
  "significand b s =
     (case scan_digits b 0 0 s of
        (ip, k1, r1) \<Rightarrow>
          (case r1 of
             [] \<Rightarrow> (ip, 0, k1, r1)
           | c # cs \<Rightarrow>
               if c = CHR ''.'' then
                 (case scan_digits b ip 0 cs of (m, k2, r2) \<Rightarrow> (m, k2, k1 + k2, r2))
               else (ip, 0, k1, r1)))"

text \<open>
  \<open>strtod(str, &endptr)\<close> for a string that begins with a decimal digit (so there is
  no leading white space, no sign and no \<open>INF\<close> or \<open>NAN\<close>): the value and the string at
  \<open>endptr\<close>. After \<open>0x\<close> or \<open>0X\<close> the significand is hexadecimal and the exponent, if
  any, is a power of two; when no hexadecimal digit follows, only the \<open>0\<close> is converted.
\<close>

definition strtod :: "string \<Rightarrow> double \<times> string" where
  "strtod s =
     (if (case s of c0 # c1 # _ \<Rightarrow> c0 = CHR ''0'' \<and> (c1 = CHR ''x'' \<or> c1 = CHR ''X'')
                  | _ \<Rightarrow> False)
      then
        (case significand 16 (drop 2 s) of
           (m, k2, k, r) \<Rightarrow>
             if k = 0 then (Finite 0 (- 1074), drop 1 s)
             else
               (case exponent_part CHR ''p'' CHR ''P'' r of
                  None \<Rightarrow> (round_double m (16 ^ k2), r)
                | Some (neg, x, r') \<Rightarrow>
                    if neg then (round_double m (16 ^ k2 * 2 ^ x), r')
                    else (round_double (m * 2 ^ x) (16 ^ k2), r')))
      else
        (case significand 10 s of
           (m, k2, k, r) \<Rightarrow>
             if k = 0 then (Finite 0 (- 1074), s)
             else
               (case exponent_part CHR ''e'' CHR ''E'' r of
                  None \<Rightarrow> (round_double m (10 ^ k2), r)
                | Some (neg, x, r') \<Rightarrow>
                    if neg then (round_double m (10 ^ k2 * 10 ^ x), r')
                    else (round_double (m * 10 ^ x) (10 ^ k2), r'))))"

text \<open>The conversions \<open>%ld\<close> and \<open>%lf\<close> (six digits after the point) of \<open>printf\<close>.\<close>

definition digit_char :: "nat \<Rightarrow> char" where
  "digit_char d = char_of (48 + d)"

function decimal :: "int \<Rightarrow> string" where
  "decimal n = (if n < 10 then [digit_char (nat n)]
                else decimal (n div 10) @ [digit_char (nat (n mod 10))])"
  by pat_completeness auto
termination
  by (relation "measure nat") auto

definition printf_ld :: "int \<Rightarrow> string" where
  "printf_ld i = (if i < 0 then CHR ''-'' # decimal (- i) else decimal i)"

definition printf_lf :: "double \<Rightarrow> string" where
  "printf_lf d =
     (case d of
        Infinity \<Rightarrow> ''inf''
      | Finite m e \<Rightarrow>
          (let n = (if 0 \<le> e then m * 2 ^ nat e * 10 ^ 6
                    else round_half_even (m * 10 ^ 6) (2 ^ nat (- e)))
           in decimal (n div 10 ^ 6) @ ''.'' @
              map (\<lambda>i. digit_char (nat (n div 10 ^ i mod 10))) [5, 4, 3, 2, 1, 0]))"

subsection \<open>Numeric literal\<close>

definition IsHexDigit :: "cint \<Rightarrow> bool" where
  "IsHexDigit c = (tolower c \<in> Some ` set ''abcdef'')"

text \<open>
  The scan returns \<open>len\<close> and \<open>is_float\<close> when a byte ends the literal (the byte is pushed
  back), or \<open>None\<close> when the end of the input is read.
\<close>

function ParseGenericNumber_scan ::
  "FILE \<Rightarrow> nat \<Rightarrow> bool \<Rightarrow> bool \<Rightarrow> (nat \<times> bool) option \<times> FILE" where
  "ParseGenericNumber_scan f len first_dot is_float =
     (case fgetc f of
        (None, f') \<Rightarrow> (None, f')
      | (Some ch, f') \<Rightarrow>
          if isdigit (Some ch) \<or> IsHexDigit (Some ch) \<or> ch = CHR ''x'' \<or> ch = CHR ''X''
          then ParseGenericNumber_scan f' (len + 1) first_dot is_float
          else if ch = CHR ''.'' \<and> first_dot
          then ParseGenericNumber_scan f' (len + 1) False True
          else (Some (len, is_float), pushback f' 1))"
  by pat_completeness auto
termination
  by (relation "measure (\<lambda>(f, len, first_dot, is_float). length (content f) - pos f)")
     (auto dest: fgetc_advances)

definition ParseGenericNumber :: "FILE \<Rightarrow> (error + PrimitiveValue) \<times> FILE" where
  "ParseGenericNumber f =
     (case ParseGenericNumber_scan f 0 True False of
        (None, f1) \<Rightarrow> (Inl UNEXPECTED_TOKEN, f1)
      | (Some (len, is_float), f1) \<Rightarrow>
          (case fgets (len + 1) (pushback f1 len) of
             (s, f2) \<Rightarrow>
               if is_float then
                 (case strtod (c_str s) of
                    (d, endptr) \<Rightarrow>
                      if endptr \<noteq> [] then (Inl INVALID_DECIMAL_LITERAL, f2)
                      else (Inr (Decimal d), f2))
               else
                 (case strtol (c_str s) of
                    (n, endptr) \<Rightarrow>
                      if endptr \<noteq> [] then (Inl INVALID_INTEGER_LITERAL, f2)
                      else (Inr (Number n), f2))))"

subsection \<open>Value dispatcher\<close>

definition ParseValue :: "FILE \<Rightarrow> (error + PrimitiveValue) \<times> FILE" where
  "ParseValue f =
     (case fgetc f of
        (None, f1) \<Rightarrow> (Inl UNEXPECTED_EOF, f1)
      | (Some ch, f1) \<Rightarrow>
          if ch = CHR 0x27 then ParseQuotedString f1
          else if isdigit (Some ch) then ParseGenericNumber (pushback f1 1)
          else (Inl UNEXPECTED_TOKEN, f1))"

subsection \<open>Array\<close>

text \<open>
  The loop of \<open>ParseVector\<close> does not return on every input, so its result is an
  \<open>option\<close> and \<open>None\<close> stands for a loop that never ends. \<open>ParseVector\<close> is entered
  after the \<open>[\<close> has been consumed; \<open>more'\<close> is the flag \<open>more\<close> of the source.
\<close>

partial_function (option) ParseVector_loop ::
  "FILE \<Rightarrow> bool \<Rightarrow> Vector \<Rightarrow> ((error + Vector) \<times> FILE) option" where
  "ParseVector_loop f more' vec =
     (case fgetc (consumeSpace f) of
        (None, f1) \<Rightarrow> Some (Inl UNEXPECTED_EOF, f1)
      | (Some ch, f1) \<Rightarrow>
          if ch = CHR '']'' then Some (Inr vec, f1)
          else if ch = CHR '','' then ParseVector_loop f1 True vec
          else if \<not> more' then Some (Inl UNEXPECTED_TOKEN, f1)
          else
            (case ParseValue (pushback f1 1) of
               (Inl e, f2) \<Rightarrow> Some (Inl INVALID_ARRAY_ELEMENT, f2)
             | (Inr v, f2) \<Rightarrow>
                 ParseVector_loop f2 False
                   (vec\<lparr>Length := Length vec + 1, Data := Data vec @ [v]\<rparr>)))"

declare ParseVector_loop.simps [code]

definition ParseVector :: "FILE \<Rightarrow> ((error + Vector) \<times> FILE) option" where
  "ParseVector f = ParseVector_loop f True \<lparr>Length = 0, Data = []\<rparr>"


section \<open>Statement parser and document builder\<close>

text \<open>
  \<open>ParseConfigLine\<close> keeps the status of the value or array parser, runs the check for
  the terminating \<open>;\<close> and only then returns the status.
\<close>

definition ParseConfigLine :: "FILE \<Rightarrow> ((error + ConfigEntry) \<times> FILE) option" where
  "ParseConfigLine f =
     (case ParseString f of
        (None, f1) \<Rightarrow> Some (Inl INVALID_CONFIG_KEY, f1)
      | (Some key, f1) \<Rightarrow>
          (case expect (consumeSpace f1) CHR ''='' of
             (False, f2) \<Rightarrow> Some (Inl UNEXPECTED_TOKEN, f2)
           | (True, f2) \<Rightarrow>
               (case fgetc (consumeSpace f2) of
                  (None, f3) \<Rightarrow> Some (Inl UNEXPECTED_EOF, f3)
                | (Some ch, f3) \<Rightarrow>
                    (case (if ch = CHR ''[''
                           then (case ParseVector f3 of
                                   None \<Rightarrow> None
                                 | Some (Inl e, f4) \<Rightarrow> Some (ARRAY_TYPE, Inl e, f4)
                                 | Some (Inr vec, f4) \<Rightarrow> Some (ARRAY_TYPE, Inr (Array vec), f4))
                           else (case ParseValue (pushback f3 1) of
                                   (Inl e, f4) \<Rightarrow> Some (PRIMITIVE_TYPE, Inl e, f4)
                                 | (Inr pv, f4) \<Rightarrow>
                                     Some (PRIMITIVE_TYPE, Inr (Primitive pv), f4))) of
                       None \<Rightarrow> None
                     | Some (ty, status, f4) \<Rightarrow>
                         (case expect (consumeSpace f4) CHR '';'' of
                            (False, f5) \<Rightarrow> Some (Inl UNEXPECTED_TOKEN, f5)
                          | (True, f5) \<Rightarrow>
                              (case status of
                                 Inl e \<Rightarrow> Some (Inl e, f5)
                               | Inr v \<Rightarrow>
                                   Some (Inr \<lparr>Key = key, Value = v, Type = ty\<rparr>, f5)))))))"

text \<open>
  \<open>ParseCfg\<close> returns \<open>Inr None\<close> for a blank line or a comment and \<open>Inr (Some entry)\<close>
  when it has filled the entry and linked a new sentinel after it.
\<close>

function ParseCfg :: "FILE \<Rightarrow> ((error + ConfigEntry option) \<times> FILE) option" where
  "ParseCfg f =
     (case fgetc f of
        (None, f1) \<Rightarrow> Some (Inl UNEXPECTED_EOF, f1)
      | (Some c, f1) \<Rightarrow>
          if c = CHR 0x0A then Some (Inr None, f1)
          else if isspace (Some c) then ParseCfg f1
          else if c = CHR ''#'' then Some (Inr None, ParseComment f1)
          else if isalpha (Some c) then
            (case ParseConfigLine (pushback f1 1) of
               None \<Rightarrow> None
             | Some (Inl status, f2) \<Rightarrow> Some (Inl status, f2)
             | Some (Inr entry, f2) \<Rightarrow> Some (Inr (Some entry), f2))
          else Some (Inl UNEXPECTED_TOKEN, f1))"
  by pat_completeness auto
termination
  by (relation "measure (\<lambda>f. length (content f) - pos f)")
     (auto dest: fgetc_advances)

text \<open>
  The loop of \<open>ParseConfig\<close>; \<open>None\<close> again stands for a run that never returns. The
  argument of \<open>ParseConfig\<close> is the content of the named file, \<open>None\<close> when \<open>fopen\<close>
  fails; allocation is taken to succeed.
\<close>

partial_function (option) ParseConfig_loop :: "FILE \<Rightarrow> Config \<Rightarrow> (error + Config) option" where
  "ParseConfig_loop f config =
     (case fgetc f of
        (None, f1) \<Rightarrow> Some (Inr config)
      | (Some c, f1) \<Rightarrow>
          if isspace (Some c) then ParseConfig_loop f1 config
          else
            (case ParseCfg (pushback f1 1) of
               None \<Rightarrow> None
             | Some (Inl status, f2) \<Rightarrow> Some (Inl status)
             | Some (Inr None, f2) \<Rightarrow> ParseConfig_loop f2 config
             | Some (Inr (Some entry), f2) \<Rightarrow>
                 ParseConfig_loop f2
                   (config\<lparr>Entries := Entries config + 1, List := List config @ [entry]\<rparr>)))"

declare ParseConfig_loop.simps [code]

definition ParseConfig :: "string option \<Rightarrow> (error + Config) option" where
  "ParseConfig file =
     (case file of
        None \<Rightarrow> Some (Inl FILE_NO_ACCESS)
      | Some src \<Rightarrow> ParseConfig_loop \<lparr>content = src, pos = 0\<rparr> \<lparr>Entries = 0, List = []\<rparr>)"

section \<open>Serializer and accessors\<close>

definition PrintPrimitive :: "PrimitiveValue \<Rightarrow> string" where
  "PrintPrimitive pv =
     (case pv of
        Number n \<Rightarrow> printf_ld n
      | Decimal d \<Rightarrow> printf_lf d
      | String s \<Rightarrow> [CHR 0x27] @ s @ [CHR 0x27])"

text \<open>
  The loops over \<open>i < Length\<close> and \<open>i < Entries\<close> are recursions on the number of
  iterations left; running off the stored elements does not happen for a \<open>Config\<close>
  built by \<open>ParseConfig\<close> (the source would read memory it does not own there).
\<close>

fun PrintVector_loop :: "PrimitiveValue list \<Rightarrow> nat \<Rightarrow> string" where
  "PrintVector_loop pvs 0 = []"
| "PrintVector_loop [] (Suc n) = []"
| "PrintVector_loop (pv # pvs) (Suc n) =
     PrintPrimitive pv @ (if n \<noteq> 0 then '','' else []) @ PrintVector_loop pvs n"

definition PrintVector :: "Vector \<Rightarrow> string" where
  "PrintVector vec = ''['' @ PrintVector_loop (Data vec) (Length vec) @ '']''"

fun DumpConfig_loop :: "ConfigEntry list \<Rightarrow> nat \<Rightarrow> string" where
  "DumpConfig_loop ces 0 = []"
| "DumpConfig_loop [] (Suc n) = []"
| "DumpConfig_loop (ce # ces) (Suc n) =
     Key ce @ '' = '' @
     (if Type ce = PRIMITIVE_TYPE
      then (case Value ce of Primitive pv \<Rightarrow> PrintPrimitive pv | Array vec \<Rightarrow> [])
      else (case Value ce of Array vec \<Rightarrow> PrintVector vec | Primitive pv \<Rightarrow> [])) @
     [CHR '';'', CHR 0x0A] @ DumpConfig_loop ces n"


text \<open>
  \<open>strcmp\<close> of two C strings (which hold no NUL) is \<open>0\<close> exactly when they are equal;
  \<open>None\<close> is \<open>NULL\<close>.
\<close>

fun FindValue_loop :: "ConfigEntry list \<Rightarrow> nat \<Rightarrow> int \<Rightarrow> string \<Rightarrow> Value option" where
  "FindValue_loop ces 0 ty k = None"
| "FindValue_loop [] (Suc n) ty k = None"
| "FindValue_loop (ce # ces) (Suc n) ty k =
     (if Key ce = k \<and> Type ce = ty then Some (Value ce) else FindValue_loop ces n ty k)"

definition FindValue :: "Config \<Rightarrow> int \<Rightarrow> string \<Rightarrow> Value option" where
  "FindValue config ty k = FindValue_loop (List config) (Entries config) ty k"

definition GetElement :: "Vector \<Rightarrow> nat \<Rightarrow> PrimitiveValue option" where
  "GetElement v idx = (if Length v \<le> idx then None else Some (Data v ! idx))"

section \<open>Predicates on the input\<close>





section \<open>Values that the parser builds\<close>







section \<open>Statements in source order\<close>



section \<open>Reading the stream\<close>

declare ParseComment.simps [simp del] consumeSpace.simps [simp del]
  ParseString_scan.simps [simp del] ParseQuotedString_scan.simps [simp del]
  ParseGenericNumber_scan.simps [simp del] ParseCfg.simps [simp del]
  bitlen.simps [simp del] decimal.simps [simp del]

lemma fgetc_Some_iff:
  "fgetc f = (Some c, f') \<longleftrightarrow>
     pos f < length (content f) \<and> c = content f ! pos f \<and> f' = f\<lparr>pos := pos f + 1\<rparr>"
  by (auto simp: fgetc_def)


lemma fgetc_at:
  assumes "drop (pos f) (content f) = c # r"
  shows "fgetc f = (Some c, f\<lparr>pos := pos f + 1\<rparr>)"
proof -
  have "pos f < length (content f)"
    using assms by (metis drop_all list.distinct(1) not_le)
  moreover have "content f ! pos f = c"
    using assms by (metis nth_via_drop)
  ultimately show ?thesis by (simp add: fgetc_def)
qed





lemma pushback_adv1 [simp]: "pushback (f\<lparr>pos := Suc (pos f)\<rparr>) (Suc 0) = f"
  by (simp add: pushback_def)









lemma ParseString_nonalpha:
  "\<not> isalpha (fst (fgetc f)) \<Longrightarrow> ParseString f = (None, snd (fgetc f))"
  by (auto simp: ParseString_def consumeLetter_def split: prod.splits bool.splits)

lemma ParseConfigLine_nonalpha:
  "\<not> isalpha (fst (fgetc f)) \<Longrightarrow>
     ParseConfigLine f = Some (Inl INVALID_CONFIG_KEY, snd (fgetc f))"
  by (simp add: ParseConfigLine_def ParseString_nonalpha)

lemma ParseString_alpha:
  "isalpha (fst (fgetc f)) \<Longrightarrow> fst (ParseString f) \<noteq> None"
  by (auto simp: ParseString_def consumeLetter_def split: prod.splits bool.splits)

lemma ParseQuotedString_error:
  "ParseQuotedString f = (Inl e, f') \<Longrightarrow> e = UNEXPECTED_EOF"
  by (auto simp: ParseQuotedString_def split: prod.splits option.splits)

lemma ParseGenericNumber_error:
  "ParseGenericNumber f = (Inl e, f') \<Longrightarrow>
     e \<in> {UNEXPECTED_TOKEN, INVALID_DECIMAL_LITERAL, INVALID_INTEGER_LITERAL}"
  by (auto simp: ParseGenericNumber_def split: prod.splits option.splits if_splits)

lemma ParseValue_error:
  "ParseValue f = (Inl e, f') \<Longrightarrow>
     e \<in> {UNEXPECTED_EOF, UNEXPECTED_TOKEN, INVALID_DECIMAL_LITERAL, INVALID_INTEGER_LITERAL}"
  by (auto simp: ParseValue_def split: prod.splits option.splits if_splits
      dest: ParseQuotedString_error ParseGenericNumber_error)

lemma ParseVector_loop_error:
  assumes "ParseVector_loop f m vec = Some y"
  shows "\<forall>e. fst y = Inl e \<longrightarrow> e \<in> {UNEXPECTED_EOF, UNEXPECTED_TOKEN, INVALID_ARRAY_ELEMENT}"
proof (rule ParseVector_loop.raw_induct
    [where P = "\<lambda>f m vec y. \<forall>e. fst y = Inl e \<longrightarrow>
                  e \<in> {UNEXPECTED_EOF, UNEXPECTED_TOKEN, INVALID_ARRAY_ELEMENT}", OF _ assms])
  fix loop :: "FILE \<Rightarrow> bool \<Rightarrow> Vector \<Rightarrow> ((error + Vector) \<times> FILE) option"
  fix f m vec y
  assume IH: "\<And>f m vec y. loop f m vec = Some y \<Longrightarrow>
      \<forall>e. fst y = Inl e \<longrightarrow> e \<in> {UNEXPECTED_EOF, UNEXPECTED_TOKEN, INVALID_ARRAY_ELEMENT}"
  assume body: "(case fgetc (consumeSpace f) of
        (None, f1) \<Rightarrow> Some (Inl UNEXPECTED_EOF, f1)
      | (Some ch, f1) \<Rightarrow>
          if ch = CHR '']'' then Some (Inr vec, f1)
          else if ch = CHR '','' then loop f1 True vec
          else if \<not> m then Some (Inl UNEXPECTED_TOKEN, f1)
          else
            (case ParseValue (pushback f1 1) of
               (Inl e, f2) \<Rightarrow> Some (Inl INVALID_ARRAY_ELEMENT, f2)
             | (Inr v, f2) \<Rightarrow>
                 loop f2 False
                   (vec\<lparr>Length := Length vec + 1, Data := Data vec @ [v]\<rparr>))) = Some y"
  show "\<forall>e. fst y = Inl e \<longrightarrow> e \<in> {UNEXPECTED_EOF, UNEXPECTED_TOKEN, INVALID_ARRAY_ELEMENT}"
    using body IH
    by (auto split: prod.splits option.splits if_splits sum.splits)
qed

lemma ParseConfigLine_error:
  assumes "ParseConfigLine f = Some (Inl e, f')" and "isalpha (fst (fgetc f))"
  shows "e \<noteq> INVALID_CONFIG_KEY"
proof -
  obtain key f1 where ps: "ParseString f = (Some key, f1)"
    using ParseString_alpha [OF assms(2)] by (cases "ParseString f") auto
  show ?thesis
    using assms(1) unfolding ParseConfigLine_def ps
    by (auto split: prod.splits option.splits if_splits sum.splits bool.splits
        dest!: ParseValue_error ParseVector_loop_error simp: ParseVector_def)
qed

lemma ParseCfg_error:
  "ParseCfg f = Some (Inl e, f') \<Longrightarrow> e \<noteq> INVALID_CONFIG_KEY"
proof (induction f rule: ParseCfg.induct)
  case (1 f)
  show ?case
  proof (cases "fgetc f")
    case (Pair ch f1)
    show ?thesis
    proof (cases ch)
      case None
      with Pair 1(2) show ?thesis by (subst (asm) ParseCfg.simps) simp
    next
      case (Some c)
      have pb: "pushback f1 1 = f"
        using Pair Some by (auto simp: fgetc_Some_iff)
      have al: "isalpha (Some c) \<Longrightarrow> isalpha (fst (fgetc f))"
        using Pair Some by simp
      from 1(2) Pair Some show ?thesis
        apply (subst (asm) ParseCfg.simps)
        apply (simp split: if_splits option.splits prod.splits sum.splits)
        subgoal using 1(1) [OF Pair [symmetric] Some] by simp
        subgoal using ParseConfigLine_error [of f] al pb by auto
        done
    qed
  qed
qed

lemma ParseConfig_loop_error:
  assumes "ParseConfig_loop f config = Some y"
  shows "y \<noteq> Inl INVALID_CONFIG_KEY"
proof (rule ParseConfig_loop.raw_induct
    [where P = "\<lambda>f config y. y \<noteq> Inl INVALID_CONFIG_KEY", OF _ assms])
  fix loop :: "FILE \<Rightarrow> Config \<Rightarrow> (error + Config) option"
  fix f config y
  assume IH: "\<And>f config y. loop f config = Some y \<Longrightarrow> y \<noteq> Inl INVALID_CONFIG_KEY"
  assume body: "(case fgetc f of
        (None, f1) \<Rightarrow> Some (Inr config)
      | (Some c, f1) \<Rightarrow>
          if isspace (Some c) then loop f1 config
          else
            (case ParseCfg (pushback f1 1) of
               None \<Rightarrow> None
             | Some (Inl status, f2) \<Rightarrow> Some (Inl status)
             | Some (Inr None, f2) \<Rightarrow> loop f2 config
             | Some (Inr (Some entry), f2) \<Rightarrow>
                 loop f2
                   (config\<lparr>Entries := Entries config + 1, List := List config @ [entry]\<rparr>))) = Some y"
  show "y \<noteq> Inl INVALID_CONFIG_KEY"
    using body IH
    by (auto split: prod.splits option.splits if_splits sum.splits dest: ParseCfg_error)
qed














lemma ParseConfig_loop_statement:
  assumes "drop (pos f) (content f) = c # r" and "\<not> isspace (Some c)"
  shows "ParseConfig_loop f config =
           (case ParseCfg f of
              None \<Rightarrow> None
            | Some (Inl status, f2) \<Rightarrow> Some (Inl status)
            | Some (Inr None, f2) \<Rightarrow> ParseConfig_loop f2 config
            | Some (Inr (Some entry), f2) \<Rightarrow>
                ParseConfig_loop f2
                  (config\<lparr>Entries := Entries config + 1, List := List config @ [entry]\<rparr>))"
  using assms
  by (subst ParseConfig_loop.simps) (simp add: fgetc_at)




lemma ParseCfg_other:
  assumes "drop (pos f) (content f) = c # r" and "\<not> isalpha (Some c)"
    and "\<not> isspace (Some c)" and "c \<noteq> CHR ''#''"
  shows "ParseCfg f = Some (Inl UNEXPECTED_TOKEN, f\<lparr>pos := pos f + 1\<rparr>)"
proof -
  have "c \<noteq> CHR 0x0A" using assms(3) by (auto simp: isspace_def code_def)
  then show ?thesis
    using assms by (subst ParseCfg.simps) (simp add: fgetc_at)
qed

section \<open>Decimal text and \<open>strtol\<close>\<close>










lemma scan_digits_stop:
  "(case r of [] \<Rightarrow> True | c # _ \<Rightarrow> \<not> isalnum (Some c)) \<Longrightarrow> scan_digits b acc k r = (acc, k, r)"
  by (cases r) (auto simp: digit_val_def isalnum_def isalpha_def isdigit_def)



section \<open>Parsing what the serializer writes\<close>
















lemma DumpConfig_loop_Cons:
  "DumpConfig_loop (ce # ces) (Suc n) = DumpConfig_loop [ce] 1 @ DumpConfig_loop ces n"
  by simp







section \<open>What the parsers build\<close>




lemma take_line_length_le: "length (take_line k ys) \<le> k"
  by (induction k ys rule: take_line.induct) auto













lemmas ParseVector_loop_induct =
  ParseVector_loop.raw_induct [rotated 1, consumes 1, case_names step]











section \<open>The position of the stream\<close>



lemma pushback_content [simp]: "content (pushback g n) = content g"
  by (simp add: pushback_def)

lemma pushback_pos: "pos (pushback g n) \<le> pos g" "pos g \<le> pos (pushback g n) + n"
  by (simp_all add: pushback_def)















section \<open>An input on which the array parser does not return\<close>

text \<open>
  At the end of the input \<open>consumeSpace\<close> reads \<open>EOF\<close>, which is not white space, and
  pushes one byte back: the last byte of the input is read again. When that byte is a
  comma inside an array, the loop of \<open>ParseVector\<close> reads it for ever; this is why its
  result is an \<open>option\<close>.
\<close>

lemma ParseVector_loop_comma_at_end:
  assumes "ParseVector_loop f m vec = Some y"
  shows "\<not> (content f = ''k = [1,'' \<and> (pos f = 6 \<or> pos f = 7))"
  using assms
proof (induction rule: ParseVector_loop_induct)
  case (step loop f m vec y)
  show ?case
  proof
    assume a: "content f = ''k = [1,'' \<and> (pos f = 6 \<or> pos f = 7)"
    have cs: "consumeSpace f = f\<lparr>pos := 6\<rparr>"
      using a by (subst consumeSpace.simps)
        (auto simp: fgetc_def pushback_def isspace_def code_def)
    have g: "fgetc (f\<lparr>pos := 6\<rparr>) = (Some CHR '','', f\<lparr>pos := 7\<rparr>)"
      using a by (auto simp: fgetc_def)
    from step(2) have "loop (f\<lparr>pos := 7\<rparr>) True vec = Some y"
      unfolding cs g by simp
    from step(1) [OF this] a show False by simp
  qed
qed

lemma ParseConfig_does_not_return: "ParseConfig (Some ''k = [1,'') = None"
proof -
  let ?src = "''k = [1,''"
  have v: "ParseVector_loop \<lparr>content = ?src, pos = 6\<rparr> False \<lparr>Length = 1, Data = [Number 1]\<rparr> = None"
    using ParseVector_loop_comma_at_end
      [of "\<lparr>content = ?src, pos = 6\<rparr>" False "\<lparr>Length = 1, Data = [Number 1]\<rparr>"]
    by (cases "ParseVector_loop \<lparr>content = ?src, pos = 6\<rparr> False \<lparr>Length = 1, Data = [Number 1]\<rparr>")
       auto
  have pv: "ParseValue \<lparr>content = ?src, pos = 5\<rparr> = (Inr (Number 1), \<lparr>content = ?src, pos = 6\<rparr>)"
    by code_simp
  have cs: "consumeSpace \<lparr>content = ?src, pos = 5\<rparr> = \<lparr>content = ?src, pos = 5\<rparr>"
    by code_simp
  have g: "fgetc \<lparr>content = ?src, pos = 5\<rparr> = (Some CHR ''1'', \<lparr>content = ?src, pos = 6\<rparr>)"
    by code_simp
  have pb: "pushback \<lparr>content = ?src, pos = 6\<rparr> 1 = \<lparr>content = ?src, pos = 5\<rparr>"
    by (simp add: pushback_def)
  have vec: "ParseVector \<lparr>content = ?src, pos = 5\<rparr> = None"
    unfolding ParseVector_def
    by (subst ParseVector_loop.simps) (simp add: cs g pb pv v del: One_nat_def)
  have ps: "ParseString \<lparr>content = ?src, pos = 0\<rparr> = (Some ''k'', \<lparr>content = ?src, pos = 1\<rparr>)"
    by code_simp
  have e1: "expect (consumeSpace \<lparr>content = ?src, pos = 1\<rparr>) CHR ''='' =
      (True, \<lparr>content = ?src, pos = 3\<rparr>)"
    by code_simp
  have g2: "fgetc (consumeSpace \<lparr>content = ?src, pos = 3\<rparr>) =
      (Some CHR ''['', \<lparr>content = ?src, pos = 5\<rparr>)"
    by code_simp
  have line: "ParseConfigLine \<lparr>content = ?src, pos = 0\<rparr> = None"
    by (simp add: ParseConfigLine_def ps e1 g2 vec del: One_nat_def)
  have g0: "fgetc \<lparr>content = ?src, pos = 0\<rparr> = (Some CHR ''k'', \<lparr>content = ?src, pos = 1\<rparr>)"
    by code_simp
  have pb0: "pushback \<lparr>content = ?src, pos = 1\<rparr> 1 = \<lparr>content = ?src, pos = 0\<rparr>"
    by (simp add: pushback_def)
  have k: "isalpha (Some CHR ''k'')" "\<not> isspace (Some CHR ''k'')"
    by (simp_all add: isalpha_def isspace_def code_def)
  have cfg: "ParseCfg \<lparr>content = ?src, pos = 0\<rparr> = None"
    by (subst ParseCfg.simps) (simp add: g0 pb0 k line del: One_nat_def)
  show ?thesis
    unfolding ParseConfig_def
    by (subst ParseConfig_loop.simps) (simp add: g0 pb0 k cfg del: One_nat_def)
qed

section \<open>Lookup\<close>

lemma FindValue_loop_find:
  "FindValue_loop ces n ty k =
     map_option Value (find (\<lambda>ce. Key ce = k \<and> Type ce = ty) (take n ces))"
  by (induction ces n ty k rule: FindValue_loop.induct) simp_all

text \<open>
  C5: \<open>FindValue\<close> scans the entries in document order. It returns a value exactly when
  some entry matches the key and the kind, and then it is the value of the first such
  entry (no earlier entry matches, so of two entries with the same key and kind only the
  earlier one is found); it returns \<open>NULL\<close> exactly when no entry matches both.
\<close>

theorem FindValue_first_match:
  "(FindValue config ty k = Some v \<longleftrightarrow>
      (\<exists>i < length (take (Entries config) (List config)).
          Key (take (Entries config) (List config) ! i) = k \<and>
          Type (take (Entries config) (List config) ! i) = ty \<and>
          Value (take (Entries config) (List config) ! i) = v \<and>
          (\<forall>j < i. \<not> (Key (take (Entries config) (List config) ! j) = k \<and>
                       Type (take (Entries config) (List config) ! j) = ty)))) \<and>
   (FindValue config ty k = None \<longleftrightarrow>
      (\<forall>i < length (take (Entries config) (List config)).
          \<not> (Key (take (Entries config) (List config) ! i) = k \<and>
             Type (take (Entries config) (List config) ! i) = ty)))"
proof -
  define es where "es = take (Entries config) (List config)"
  define P where "P = (\<lambda>ce::ConfigEntry. Key ce = k \<and> Type ce = ty)"
  have eq: "FindValue config ty k = map_option Value (find P es)"
    by (simp add: FindValue_def FindValue_loop_find es_def P_def)
  have some: "FindValue config ty k = Some v \<longleftrightarrow>
      (\<exists>i < length es. P (es ! i) \<and> Value (es ! i) = v \<and> (\<forall>j < i. \<not> P (es ! j)))"
    unfolding eq by (auto simp: find_Some_iff)
  have none: "FindValue config ty k = None \<longleftrightarrow> (\<forall>i < length es. \<not> P (es ! i))"
    unfolding eq by (auto simp: find_None_iff in_set_conv_nth)
  show ?thesis
    using some none unfolding es_def P_def by (simp only: conj_assoc) 
qed

theorem FindValue_first_match_witness:
  "FindValue
     \<lparr>Entries = 2,
      List = [\<lparr>Key = ''k'', Value = Primitive (Number 1), Type = PRIMITIVE_TYPE\<rparr>,
              \<lparr>Key = ''k'', Value = Primitive (Number 2), Type = PRIMITIVE_TYPE\<rparr>]\<rparr>
     PRIMITIVE_TYPE ''k'' = Some (Primitive (Number 1)) \<and>
   FindValue
     \<lparr>Entries = 2,
      List = [\<lparr>Key = ''k'', Value = Primitive (Number 1), Type = PRIMITIVE_TYPE\<rparr>,
              \<lparr>Key = ''k'', Value = Primitive (Number 2), Type = PRIMITIVE_TYPE\<rparr>]\<rparr>
     ARRAY_TYPE ''k'' = None"
proof -
  let ?cfg = "\<lparr>Entries = 2,
      List = [\<lparr>Key = ''k'', Value = Primitive (Number 1), Type = PRIMITIVE_TYPE\<rparr>,
              \<lparr>Key = ''k'', Value = Primitive (Number 2), Type = PRIMITIVE_TYPE\<rparr>]\<rparr>"
  have neq: "PRIMITIVE_TYPE \<noteq> ARRAY_TYPE"
    by (simp add: PRIMITIVE_TYPE_def ARRAY_TYPE_def)
  have "\<exists>i < length (take (Entries ?cfg) (List ?cfg)).
          Key (take (Entries ?cfg) (List ?cfg) ! i) = ''k'' \<and>
          Type (take (Entries ?cfg) (List ?cfg) ! i) = PRIMITIVE_TYPE \<and>
          Value (take (Entries ?cfg) (List ?cfg) ! i) = Primitive (Number 1) \<and>
          (\<forall>j < i. \<not> (Key (take (Entries ?cfg) (List ?cfg) ! j) = ''k'' \<and>
                       Type (take (Entries ?cfg) (List ?cfg) ! j) = PRIMITIVE_TYPE))"
    by (rule exI [of _ 0]) simp
  then have first: "FindValue ?cfg PRIMITIVE_TYPE ''k'' = Some (Primitive (Number 1))"
    using FindValue_first_match [of ?cfg PRIMITIVE_TYPE "''k''" "Primitive (Number 1)"]
    by blast
  have "\<forall>i < length (take (Entries ?cfg) (List ?cfg)).
          \<not> (Key (take (Entries ?cfg) (List ?cfg) ! i) = ''k'' \<and>
             Type (take (Entries ?cfg) (List ?cfg) ! i) = ARRAY_TYPE)"
    using neq by (simp add: less_Suc_eq numeral_2_eq_2)
  then have "FindValue ?cfg ARRAY_TYPE ''k'' = None"
    using FindValue_first_match [of ?cfg ARRAY_TYPE "''k''" "Primitive (Number 1)"]
    by blast
  with first show ?thesis by simp
qed

section \<open>Arrays\<close>

text \<open>
  C3: the statement \<open>k = [];\<close> parses to an array of length 0, and \<open>k = [1,2,];\<close>, with
  a trailing comma, parses to an array of length 2 that is the one \<open>k = [1,2];\<close> gives.
\<close>

theorem empty_and_trailing_comma_arrays:
  "ParseConfig (Some ''k = [];'') =
     Some (Inr \<lparr>Entries = 1,
                List = [\<lparr>Key = ''k'', Value = Array \<lparr>Length = 0, Data = []\<rparr>,
                         Type = ARRAY_TYPE\<rparr>]\<rparr>) \<and>
   ParseConfig (Some ''k = [1,2,];'') =
     Some (Inr \<lparr>Entries = 1,
                List = [\<lparr>Key = ''k'',
                         Value = Array \<lparr>Length = 2, Data = [Number 1, Number 2]\<rparr>,
                         Type = ARRAY_TYPE\<rparr>]\<rparr>) \<and>
   ParseConfig (Some ''k = [1,2,];'') = ParseConfig (Some ''k = [1,2];'')"
  by code_simp

text \<open>
  C9: a leading comma and a doubled comma are accepted, since a comma only sets the flag
  \<open>more\<close> again: \<open>k = [,1];\<close> gives an array of length 1 and \<open>k = [1,,2];\<close> one of
  length 2.
\<close>

theorem leading_and_doubled_commas:
  "ParseConfig (Some ''k = [,1];'') =
     Some (Inr \<lparr>Entries = 1,
                List = [\<lparr>Key = ''k'', Value = Array \<lparr>Length = 1, Data = [Number 1]\<rparr>,
                         Type = ARRAY_TYPE\<rparr>]\<rparr>) \<and>
   ParseConfig (Some ''k = [1,,2];'') =
     Some (Inr \<lparr>Entries = 1,
                List = [\<lparr>Key = ''k'',
                         Value = Array \<lparr>Length = 2, Data = [Number 1, Number 2]\<rparr>,
                         Type = ARRAY_TYPE\<rparr>]\<rparr>)"
  by code_simp

section \<open>Numeric literals\<close>

text \<open>
  C2: in \<open>k = 1.2.3;\<close> the scan of the literal, started at offset 4, counts three bytes
  in float mode and stops in front of the second point (offset 7); the captured text is
  \<open>1.2\<close>, which \<open>strtod\<close> converts completely, to the \<open>double\<close> nearest to 1.2
  (\<open>5404319552844595 / 2 ^ 52\<close>, at most \<open>2 ^ - 53\<close> away from \<open>12 / 10\<close>). The check
  for the terminator then reads the point instead of \<open>;\<close> and the statement, and with it
  the whole parse, fails with \<open>UNEXPECTED_TOKEN\<close>.
\<close>

theorem second_point_ends_literal:
  "ParseGenericNumber_scan \<lparr>content = ''k = 1.2.3;'', pos = 4\<rparr> 0 True False =
     (Some (3, True), \<lparr>content = ''k = 1.2.3;'', pos = 7\<rparr>) \<and>
   fst (fgets (3 + 1) \<lparr>content = ''k = 1.2.3;'', pos = 4\<rparr>) = ''1.2'' \<and>
   strtod ''1.2'' = (Finite 5404319552844595 (- 52), []) \<and>
   2 * \<bar>5404319552844595 * 10 - 12 * 2 ^ 52\<bar> \<le> (10 :: int) \<and>
   ParseValue \<lparr>content = ''k = 1.2.3;'', pos = 4\<rparr> =
     (Inr (Decimal (Finite 5404319552844595 (- 52))),
      \<lparr>content = ''k = 1.2.3;'', pos = 7\<rparr>) \<and>
   fgetc \<lparr>content = ''k = 1.2.3;'', pos = 7\<rparr> =
     (Some CHR ''.'', \<lparr>content = ''k = 1.2.3;'', pos = 8\<rparr>) \<and>
   expect (consumeSpace \<lparr>content = ''k = 1.2.3;'', pos = 7\<rparr>) CHR '';'' =
     (False, \<lparr>content = ''k = 1.2.3;'', pos = 8\<rparr>) \<and>
   ParseConfigLine \<lparr>content = ''k = 1.2.3;'', pos = 0\<rparr> =
     Some (Inl UNEXPECTED_TOKEN, \<lparr>content = ''k = 1.2.3;'', pos = 8\<rparr>) \<and>
   ParseConfig (Some ''k = 1.2.3;'') = Some (Inl UNEXPECTED_TOKEN)"
  by code_simp

section \<open>Failures\<close>

text \<open>
  C6, as the code has it: \<open>ParseConfigLine\<close>, entered at a byte that is not a letter,
  fails with \<open>INVALID_CONFIG_KEY\<close>. \<open>ParseCfg\<close> however enters it at a letter only: a
  statement that begins with any other byte (white space and \<open>#\<close> apart) is rejected
  there with \<open>UNEXPECTED_TOKEN\<close>, which the document builder returns, and
  \<open>ParseConfig\<close> never returns \<open>INVALID_CONFIG_KEY\<close>.
\<close>

theorem nonalphabetic_key_rejected:
  "(drop (pos f) (content f) = c # r \<and> \<not> isalpha (Some c) \<longrightarrow>
      ParseConfigLine f = Some (Inl INVALID_CONFIG_KEY, f\<lparr>pos := pos f + 1\<rparr>)) \<and>
   (drop (pos f) (content f) = c # r \<and> \<not> isalpha (Some c) \<and> \<not> isspace (Some c) \<and>
    c \<noteq> CHR ''#'' \<longrightarrow>
      ParseCfg f = Some (Inl UNEXPECTED_TOKEN, f\<lparr>pos := pos f + 1\<rparr>) \<and>
      ParseConfig_loop f config = Some (Inl UNEXPECTED_TOKEN)) \<and>
   ParseConfig file \<noteq> Some (Inl INVALID_CONFIG_KEY)"
proof (intro conjI impI)
  assume "drop (pos f) (content f) = c # r \<and> \<not> isalpha (Some c)"
  then show "ParseConfigLine f = Some (Inl INVALID_CONFIG_KEY, f\<lparr>pos := pos f + 1\<rparr>)"
    using ParseConfigLine_nonalpha [of f] by (simp add: fgetc_at)
next
  assume a: "drop (pos f) (content f) = c # r \<and> \<not> isalpha (Some c) \<and> \<not> isspace (Some c) \<and>
    c \<noteq> CHR ''#''"
  then show cfg: "ParseCfg f = Some (Inl UNEXPECTED_TOKEN, f\<lparr>pos := pos f + 1\<rparr>)"
    by (simp add: ParseCfg_other)
  from a show "ParseConfig_loop f config = Some (Inl UNEXPECTED_TOKEN)"
    using ParseConfig_loop_statement [of f c r config] cfg by simp
next
  show "ParseConfig file \<noteq> Some (Inl INVALID_CONFIG_KEY)"
    using ParseConfig_loop_error by (auto simp: ParseConfig_def split: option.splits)
qed

theorem nonalphabetic_key_rejected_witness:
  "ParseConfigLine \<lparr>content = ''1k = 2;'', pos = 0\<rparr> =
     Some (Inl INVALID_CONFIG_KEY, \<lparr>content = ''1k = 2;'', pos = 1\<rparr>) \<and>
   ParseCfg \<lparr>content = ''1k = 2;'', pos = 0\<rparr> =
     Some (Inl UNEXPECTED_TOKEN, \<lparr>content = ''1k = 2;'', pos = 1\<rparr>) \<and>
   ParseConfig (Some ''1k = 2;'') = Some (Inl UNEXPECTED_TOKEN)"
  using nonalphabetic_key_rejected
    [of "\<lparr>content = ''1k = 2;'', pos = 0\<rparr>" "CHR ''1''" "''k = 2;''"
        "\<lparr>Entries = 0, List = []\<rparr>"]
  by (simp add: isalpha_def isspace_def code_def ParseConfig_def)

theorem nonalphabetic_key_counterexample:
  "ParseConfig (Some ''1k = 2;'') = Some (Inl UNEXPECTED_TOKEN) \<and>
   ParseConfig (Some ''1k = 2;'') \<noteq> Some (Inl INVALID_CONFIG_KEY)"
  by code_simp







section \<open>Integer statements\<close>




section \<open>Round trip\<close>




section \<open>Document builder\<close>



end
